theory Spec2Isabelle
  imports Main
begin

section \<open>Values of the program\<close>

text \<open>
  The application (\<^verbatim>\<open>src/app.py\<close>) is a Streamlit script around one function,
  \<^verbatim>\<open>chat_with_csv\<close>, which classifies the reply of an external engine by its runtime
  type. The replies are Python values; the model keeps the shapes the function tells
  apart: a pandas DataFrame, a list, a dict, and the scalars that are none of these.

  A DataFrame is its ordered column names and its rows, each row aligned with the
  columns. A dict is an association list in insertion order (Python keeps it, and pandas
  reads the column order from it); a Python dict never repeats a key.
\<close>

datatype 'c frame = Frame (columns: "string list") (rows: "'c list list")

datatype py_value =
    PyNone
  | PyBool bool
  | PyInt int
  | PyStr string
  | PyList "py_value list"
  | PyDict "(string \<times> py_value) list"
  | PyDataFrame "py_value frame"

type_synonym table = "py_value frame"

text \<open>
  Exceptions are values. Every exception of the model is an instance of Python's
  \<^verbatim>\<open>Exception\<close>, the class the handler of \<^verbatim>\<open>chat_with_csv\<close> names.
\<close>

datatype py_error = ValueError | TypeError | ImportError | OtherError string

text \<open>\<^verbatim>\<open>isinstance(v, pd.DataFrame)\<close>, \<^verbatim>\<open>isinstance(v, list)\<close>, \<^verbatim>\<open>isinstance(v, dict)\<close>.\<close>

fun isinstance_DataFrame :: "py_value \<Rightarrow> bool" where
  "isinstance_DataFrame (PyDataFrame t) = True"
| "isinstance_DataFrame v = False"

fun isinstance_list :: "py_value \<Rightarrow> bool" where
  "isinstance_list (PyList vs) = True"
| "isinstance_list v = False"

fun isinstance_dict :: "py_value \<Rightarrow> bool" where
  "isinstance_dict (PyDict kvs) = True"
| "isinstance_dict v = False"

section \<open>The query dispatcher\<close>

text \<open>
  \<^verbatim>\<open>
  def chat_with_csv(df, prompt):
      llm = OpenAi(api_token = openai_api_key)
      pandas_ai = SmartDataframe(df, config = {"llm": llm})
      result = pandas_ai.chat(prompt)
      if isinstance(result, pd.DataFrame):
          return result
      elif isinstance(result, list) or isinstance(result, dict):
          try:
              result_df = pd.DataFrame(result)
              return result_df
          except Exception as e:
              print("Could Not Convert Result To DataFrame")
      return result
  \<close>
  The two external libraries are parameters of the model. \<open>chat\<close> stands for the three
  engine lines together (the client built from the credential, the handle bound to the
  table, the query): it returns the reply or raises. \<open>DataFrame\<close> is the constructor
  \<^verbatim>\<open>pd.DataFrame\<close>: it returns a table or raises. The function returns its result
  (\<open>Inl\<close>: the exception that leaves it) together with the lines it printed.
\<close>

type_synonym engine = "string \<Rightarrow> table \<Rightarrow> string \<Rightarrow> py_error + py_value"

type_synonym constructor = "py_value \<Rightarrow> py_error + table"

definition conversion_message :: string where
  "conversion_message = ''Could Not Convert Result To DataFrame''"

definition chat_with_csv ::
  "constructor \<Rightarrow> engine \<Rightarrow> string \<Rightarrow> table \<Rightarrow> string \<Rightarrow> (py_error + py_value) \<times> string list" where
  "chat_with_csv DataFrame chat openai_api_key df prompt =
     (case chat openai_api_key df prompt of
        Inl e \<Rightarrow> (Inl e, [])
      | Inr result \<Rightarrow>
          if isinstance_DataFrame result then (Inr result, [])
          else if isinstance_list result \<or> isinstance_dict result then
            (case DataFrame result of
               Inr result_df \<Rightarrow> (Inr (PyDataFrame result_df), [])
             | Inl e \<Rightarrow> (Inr result, [conversion_message]))
          else (Inr result, []))"

section \<open>The table constructor\<close>

text \<open>
  The constructor \<^verbatim>\<open>pd.DataFrame\<close> belongs to pandas, which is not under \<^verbatim>\<open>src/\<close>.
  \<^verbatim>\<open>chat_with_csv\<close> above takes it as a parameter; the definitions of this section give
  one constructor to run it with. Replies of a shape the spec does not name (a list that
  holds something other than records, a record that holds a dict or a table) count as
  non-tabular structure and are refused.
\<close>

fun dest_record :: "py_value \<Rightarrow> (string \<times> py_value) list option" where
  "dest_record (PyDict kvs) = Some kvs"
| "dest_record v = None"

fun is_scalar :: "py_value \<Rightarrow> bool" where
  "is_scalar (PyList vs) = False"
| "is_scalar (PyDict kvs) = False"
| "is_scalar (PyDataFrame t) = False"
| "is_scalar v = True"

fun seq_length :: "py_value \<Rightarrow> nat option" where
  "seq_length (PyList vs) = Some (length vs)"
| "seq_length v = None"

fun column_cell :: "py_value \<Rightarrow> nat \<Rightarrow> py_value" where
  "column_cell (PyList vs) i = vs ! i"
| "column_cell v i = v"

definition lookup_cell :: "(string \<times> py_value) list \<Rightarrow> string \<Rightarrow> py_value" where
  "lookup_cell r k = (case map_of r k of Some v \<Rightarrow> v | None \<Rightarrow> PyNone)"

text \<open>
  Modelled from the spec: what \<^verbatim>\<open>pd.DataFrame\<close> (pandas, not under \<^verbatim>\<open>src/\<close>) makes of a
  row-oriented sequence of records. Uniform records become a table with one column per
  shared key, named in the order of the first record, and one row per record; records
  whose keys differ (the spec's \<^verbatim>\<open>[{"a":1},{"b":2}]\<close>) make the construction fail.
\<close>

definition from_records :: "(string \<times> py_value) list list \<Rightarrow> py_error + table" where
  "from_records recs =
     (case recs of
        [] \<Rightarrow> Inr (Frame [] [])
      | r # _ \<Rightarrow>
          (let cols = map fst r in
           if list_all (\<lambda>r'. set (map fst r') = set cols) recs
           then Inr (Frame cols (map (\<lambda>r'. map (lookup_cell r') cols) recs))
           else Inl ValueError))"

text \<open>
  Modelled from the spec: what \<^verbatim>\<open>pd.DataFrame\<close> (pandas, not under \<^verbatim>\<open>src/\<close>) makes of a
  single record mapping a column name to a scalar or a sequence. The spec leaves the
  details to pandas, whose documented behaviour the model follows: the sequences are the
  columns and must have one length, a scalar beside them is repeated on every row, the
  empty record is the empty table, and a record of scalars only is refused
  (\<^verbatim>\<open>ValueError: If using all scalar values, you must pass an index\<close>).
\<close>

definition from_dict :: "(string \<times> py_value) list \<Rightarrow> py_error + table" where
  "from_dict kvs =
     (if kvs = [] then Inr (Frame [] [])
      else if list_ex (\<lambda>(k, v). \<not> is_scalar v \<and> seq_length v = None) kvs then Inl ValueError
      else
        (case List.map_filter (\<lambda>(k, v). seq_length v) kvs of
           [] \<Rightarrow> Inl ValueError
         | n # ns \<Rightarrow>
             if list_all (\<lambda>m. m = n) ns
             then Inr (Frame (map fst kvs) (map (\<lambda>i. map (\<lambda>(k, v). column_cell v i) kvs) [0..<n]))
             else Inl ValueError))"

text \<open>
  Modelled from the spec: the constructor \<^verbatim>\<open>pd.DataFrame\<close> (pandas, not under \<^verbatim>\<open>src/\<close>),
  by the shape of its argument. A table is taken as it is, and \<^verbatim>\<open>None\<close> is the empty
  table; neither reaches the constructor from \<^verbatim>\<open>chat_with_csv\<close>.
\<close>

fun pd_DataFrame :: constructor where
  "pd_DataFrame (PyDataFrame t) = Inr t"
| "pd_DataFrame (PyList vs) =
     (case those (map dest_record vs) of
        None \<Rightarrow> Inl ValueError
      | Some recs \<Rightarrow> from_records recs)"
| "pd_DataFrame (PyDict kvs) = from_dict kvs"
| "pd_DataFrame PyNone = Inr (Frame [] [])"
| "pd_DataFrame v = Inl ValueError"

section \<open>The script\<close>

text \<open>
  One run of the Streamlit script, from its first line to its last or to the point where
  it stops. What the run does is its trace: the widgets it renders, in order and with
  the place they are rendered in, the file it parses, the call of \<^verbatim>\<open>chat_with_csv\<close>
  and the lines printed. The run ends by reaching the end of the script, by
  \<^verbatim>\<open>st.stop()\<close>, or with an exception nothing caught. The import statements of lines
  1 to 6 come first (\<open>app\<close> below); the statements from line 11 on are \<open>main_script\<close>.

  The string literals of the source hold four symbols outside ASCII; they are their
  UTF-8 bytes here.
\<close>

datatype place = Page | Col1 | Col2

datatype widget =
    St_error string
  | St_set_page_config string
  | St_title string
  | St_file_uploader string
  | St_columns
  | St_info string
  | St_dataframe table
  | St_text_area string
  | St_button string
  | St_success py_value

datatype event =
    Render place widget
  | Read_csv string
  | Dispatch table string
  | Stdout string

datatype outcome = Finished | Stopped | Uncaught py_error

definition warning_sign :: string where
  "warning_sign = [CHR 0xE2, CHR 0x9A, CHR 0xA0, CHR 0xEF, CHR 0xB8, CHR 0x8F]"

definition bar_chart :: string where
  "bar_chart = [CHR 0xF0, CHR 0x9F, CHR 0x93, CHR 0x8A]"

definition check_mark :: string where
  "check_mark = [CHR 0xE2, CHR 0x9C, CHR 0x85]"

definition magnifier :: string where
  "magnifier = [CHR 0xF0, CHR 0x9F, CHR 0x94, CHR 0x8E]"

definition missing_key_message :: string where
  "missing_key_message = warning_sign @ '' OpenAI API key missing. Please check your .env file.''"

text \<open>
  \<^verbatim>\<open>not openai_api_key\<close>: \<^verbatim>\<open>os.getenv\<close> gives \<^verbatim>\<open>None\<close> for a variable that is not set
  and its text otherwise; \<^verbatim>\<open>None\<close> and the empty text are the falsy ones.
\<close>

fun py_not :: "string option \<Rightarrow> bool" where
  "py_not None = True"
| "py_not (Some s) = (s = [])"

text \<open>
  \<^verbatim>\<open>
  if isinstance(result, pd.DataFrame):
      st.dataframe(result, use_container_width=True)
  st.success(result)
  \<close>
\<close>

definition show_result :: "py_value \<Rightarrow> event list" where
  "show_result result =
     (case result of PyDataFrame t \<Rightarrow> [Render Col2 (St_dataframe t)] | _ \<Rightarrow> [])
     @ [Render Col2 (St_success result)]"

text \<open>
  The right column. \<^verbatim>\<open>st.text_area\<close> returns the text of the box, which is never
  \<^verbatim>\<open>None\<close>, so the test \<^verbatim>\<open>input_text is not None\<close> always passes; \<^verbatim>\<open>st.button\<close> returns
  whether the button was pressed in this run.
\<close>

definition col2_block ::
  "constructor \<Rightarrow> engine \<Rightarrow> string \<Rightarrow> table \<Rightarrow> string \<Rightarrow> bool \<Rightarrow> event list \<times> outcome" where
  "col2_block DataFrame chat openai_api_key data input_text button =
     (let widgets =
        [Render Col2 (St_info ''Chat Below With Your Dataset''),
         Render Col2 (St_text_area ''Enter Your Query...''),
         Render Col2 (St_button ''Chat With CSV'')]
      in
      if button then
        (let asked = widgets
           @ [Render Col2 (St_info (magnifier @ '' Your Query: '' @ input_text)),
              Dispatch data input_text]
         in
         case chat_with_csv DataFrame chat openai_api_key data input_text of
           (Inl e, out) \<Rightarrow> (asked @ map Stdout out, Uncaught e)
         | (Inr result, out) \<Rightarrow> (asked @ map Stdout out @ show_result result, Finished))
      else (widgets, Finished))"

text \<open>
  The script from the credential check on (lines 11 to 65). \<open>environ\<close> is the process
  environment as \<^verbatim>\<open>load_dotenv()\<close> of line 9 left it, \<open>input_csv\<close> the uploaded file
  (\<^verbatim>\<open>None\<close> before an upload), \<open>read_csv\<close> the parser \<^verbatim>\<open>pd.read_csv\<close>.
\<close>

definition main_script ::
  "constructor \<Rightarrow> engine \<Rightarrow> (string \<Rightarrow> py_error + table) \<Rightarrow> (string \<Rightarrow> string option)
     \<Rightarrow> string option \<Rightarrow> string \<Rightarrow> bool \<Rightarrow> event list \<times> outcome" where
  "main_script DataFrame chat read_csv environ input_csv input_text button =
     (let openai_api_key = environ ''OPENAI_API_KEY'' in
      if py_not openai_api_key
      then ([Render Page (St_error missing_key_message)], Stopped)
      else
        (let page =
           [Render Page (St_set_page_config ''wide''),
            Render Page (St_title (bar_chart @ '' Chat With CSV Using LLm Model'')),
            Render Page (St_file_uploader ''Upload Your CSV File'')]
         in
         case input_csv of
           None \<Rightarrow> (page, Finished)
         | Some file \<Rightarrow>
             (let col1 = page
                @ [Render Page St_columns,
                   Render Col1 (St_info (check_mark @ '' CSV File Uploaded Successfully'')),
                   Read_csv file]
              in
              case read_csv file of
                Inl e \<Rightarrow> (col1, Uncaught e)
              | Inr data \<Rightarrow>
                  (case col2_block DataFrame chat (case openai_api_key of Some k \<Rightarrow> k | None \<Rightarrow> [])
                          data input_text button of
                     (evs, out) \<Rightarrow> (col1 @ [Render Col1 (St_dataframe data)] @ evs, out)))))"

text \<open>
  The whole script (lines 1 to 65).
  \<^verbatim>\<open>
  import streamlit as st
  import pandas as pd
  import os
  from dotenv import load_dotenv
  from pandasai.llm.openai import OpenAi
  from pandasai import SmartDataframe
  \<close>
  Whether these names are found is decided by the installed packages, not by the script:
  \<open>imported\<close> is the outcome of the six statements, \<open>None\<close> when every name is found and
  the exception otherwise. Line 5 asks the module \<^verbatim>\<open>pandasai.llm.openai\<close> for the name
  \<^verbatim>\<open>OpenAi\<close>; where the module exports its client under another spelling only
  (\<^verbatim>\<open>OpenAI\<close>), the statement raises \<^verbatim>\<open>ImportError\<close>. An import that raises ends the run
  there, before any call of \<^verbatim>\<open>st\<close>: nothing is rendered and nothing catches the
  exception.
\<close>

definition app ::
  "py_error option \<Rightarrow> constructor \<Rightarrow> engine \<Rightarrow> (string \<Rightarrow> py_error + table)
     \<Rightarrow> (string \<Rightarrow> string option) \<Rightarrow> string option \<Rightarrow> string \<Rightarrow> bool \<Rightarrow> event list \<times> outcome" where
  "app imported DataFrame chat read_csv environ input_csv input_text button =
     (case imported of
        Some e \<Rightarrow> ([], Uncaught e)
      | None \<Rightarrow> main_script DataFrame chat read_csv environ input_csv input_text button)"

text \<open>What the startup claims speak of, as tests on one event of a trace.\<close>

fun is_upload_or_query_ui :: "event \<Rightarrow> bool" where
  "is_upload_or_query_ui (Render p (St_file_uploader l)) = True"
| "is_upload_or_query_ui (Render p (St_text_area l)) = True"
| "is_upload_or_query_ui (Render p (St_button l)) = True"
| "is_upload_or_query_ui e = False"

fun constructs_table :: "event \<Rightarrow> bool" where
  "constructs_table (Read_csv f) = True"
| "constructs_table e = False"

fun invokes_dispatcher :: "event \<Rightarrow> bool" where
  "invokes_dispatcher (Dispatch t q) = True"
| "invokes_dispatcher e = False"

section \<open>Sample values\<close>

text \<open>
  Replies and a table used to run the definitions: the spec's two lists of records, a
  record whose columns differ in length, a record of one scalar, and a small upload.
\<close>

definition mismatched_records :: py_value where
  "mismatched_records = PyList [PyDict [(''a'', PyInt 1)], PyDict [(''b'', PyInt 2)]]"

definition uniform_records :: py_value where
  "uniform_records =
     PyList [PyDict [(''a'', PyInt 1), (''b'', PyInt 2)], PyDict [(''a'', PyInt 3), (''b'', PyInt 4)]]"

definition ragged_columns :: py_value where
  "ragged_columns = PyDict [(''a'', PyList [PyInt 1, PyInt 2]), (''b'', PyList [PyInt 3])]"

definition scalar_record :: py_value where
  "scalar_record = PyDict [(''a'', PyInt 1)]"

definition scalar_pair :: py_value where
  "scalar_pair = PyDict [(''x'', PyInt 1), (''y'', PyStr ''two'')]"

definition sample_table :: table where
  "sample_table = Frame [''city'', ''sales''] [[PyStr ''Oslo'', PyInt 7], [PyStr ''Rome'', PyInt 9]]"

section \<open>Facts about the table constructor\<close>

lemma those_dest_record: "those (map dest_record (map PyDict recs)) = Some recs"
  by (induction recs) simp_all

lemma lookup_cell_present:
  assumes "k \<in> set (map fst r)"
  shows "lookup_cell r k = the (map_of r k)"
proof -
  from assms have "map_of r k \<noteq> None"
    by (simp add: map_of_eq_None_iff)
  then show ?thesis
    by (auto simp: lookup_cell_def)
qed

lemma from_records_uniform:
  assumes "list_all (\<lambda>r'. set (map fst r') = set (map fst r)) (r # rs)"
  shows "from_records (r # rs)
           = Inr (Frame (map fst r) (map (\<lambda>r'. map (\<lambda>k. the (map_of r' k)) (map fst r)) (r # rs)))"
proof -
  have keys: "set (map fst r') = set (map fst r)" if "r' \<in> set (r # rs)" for r'
    using that assms unfolding list_all_iff by blast
  have "map (\<lambda>r'. map (lookup_cell r') (map fst r)) (r # rs)
          = map (\<lambda>r'. map (\<lambda>k. the (map_of r' k)) (map fst r)) (r # rs)"
  proof (rule map_cong [OF refl])
    fix r' assume r': "r' \<in> set (r # rs)"
    show "map (lookup_cell r') (map fst r) = map (\<lambda>k. the (map_of r' k)) (map fst r)"
    proof (rule map_cong [OF refl])
      fix k assume "k \<in> set (map fst r)"
      with keys [OF r'] have "k \<in> set (map fst r')" by simp
      then show "lookup_cell r' k = the (map_of r' k)" by (rule lookup_cell_present)
    qed
  qed
  with assms show ?thesis
    unfolding from_records_def by (simp add: Let_def)
qed

lemma scalar_no_length: "is_scalar v \<Longrightarrow> seq_length v = None"
  by (cases v) simp_all

lemma map_filter_all_scalar:
  "list_all (\<lambda>(k, v). is_scalar v) kvs \<Longrightarrow> List.map_filter (\<lambda>(k, v). seq_length v) kvs = []"
  by (induction kvs) (auto simp: List.map_filter_simps scalar_no_length)

lemma from_dict_all_scalar:
  assumes "kvs \<noteq> []" and "list_all (\<lambda>(k, v). is_scalar v) kvs"
  shows "from_dict kvs = Inl ValueError"
proof -
  have "\<not> list_ex (\<lambda>(k, v). \<not> is_scalar v \<and> seq_length v = None) kvs"
    using assms(2) by (auto simp: list_all_iff list_ex_iff)
  with assms show ?thesis
    by (simp add: from_dict_def map_filter_all_scalar)
qed

text \<open>The refusals the sample values meet, and the empty record, which is not refused.\<close>

lemma pd_DataFrame_mismatched: "pd_DataFrame mismatched_records = Inl ValueError"
  by (simp add: mismatched_records_def from_records_def)

lemma pd_DataFrame_ragged: "pd_DataFrame ragged_columns = Inl ValueError"
  by (simp add: ragged_columns_def from_dict_def List.map_filter_simps)

lemma pd_DataFrame_empty_record: "pd_DataFrame (PyDict []) = Inr (Frame [] [])"
  by (simp add: from_dict_def)

section \<open>The dispatcher: the shape of the reply\<close>

text \<open>
  Claim C1. When the reply of the engine is a list or a dict and the table constructor
  raises on it, \<^verbatim>\<open>chat_with_csv\<close> does not raise: the handler catches the exception of
  the conversion, and the function returns a value. This holds for every constructor and
  every engine.
\<close>

theorem conversion_failure_does_not_raise:
  assumes "chat key df prompt = Inr reply"
    and "isinstance_list reply \<or> isinstance_dict reply"
    and "DataFrame reply = Inl e"
  shows "\<exists>v. fst (chat_with_csv DataFrame chat key df prompt) = Inr v"
  using assms by (cases reply) (simp_all add: chat_with_csv_def)

theorem conversion_failure_does_not_raise_witness:
  "pd_DataFrame mismatched_records = Inl ValueError
   \<and> (\<exists>v. fst (chat_with_csv pd_DataFrame (\<lambda>k t q. Inr mismatched_records)
                 ''sk-1'' sample_table ''totals'') = Inr v)"
proof -
  have shape: "isinstance_list mismatched_records \<or> isinstance_dict mismatched_records"
    by (simp add: mismatched_records_def)
  from conversion_failure_does_not_raise
         [of "\<lambda>k t q. Inr mismatched_records" "''sk-1''" sample_table "''totals''"
             mismatched_records pd_DataFrame ValueError,
          OF refl shape pd_DataFrame_mismatched]
       pd_DataFrame_mismatched
  show ?thesis by simp
qed

text \<open>
  Claim C2, as stated, fails. It says that after a failed conversion the reply is dropped
  and the function falls off the branch with no result. The handler only prints; control
  then reaches the last line, \<^verbatim>\<open>return result\<close>, and the reply comes back. On the record
  \<^verbatim>\<open>{"a": [1, 2], "b": [3]}\<close> the constructor raises, one line is printed, and the value
  returned is that record, not \<^verbatim>\<open>None\<close>.
\<close>

theorem conversion_failure_reply_not_dropped:
  "isinstance_dict ragged_columns
   \<and> pd_DataFrame ragged_columns = Inl ValueError
   \<and> chat_with_csv pd_DataFrame (\<lambda>k t q. Inr ragged_columns) ''sk-1'' sample_table ''totals''
       = (Inr ragged_columns, [''Could Not Convert Result To DataFrame''])
   \<and> ragged_columns \<noteq> PyNone"
  by (simp add: ragged_columns_def from_dict_def List.map_filter_simps chat_with_csv_def
      conversion_message_def)

text \<open>
  Claim C2, amended. When the reply is a list or a dict and the table constructor raises
  on it, the error is only logged (one line on the standard output), nothing is raised,
  and the function returns the reply as it came, through its last \<^verbatim>\<open>return\<close>.
\<close>

theorem conversion_failure_logs_and_returns_reply:
  assumes "chat key df prompt = Inr reply"
    and "isinstance_list reply \<or> isinstance_dict reply"
    and "DataFrame reply = Inl e"
  shows "chat_with_csv DataFrame chat key df prompt
           = (Inr reply, [''Could Not Convert Result To DataFrame''])"
  using assms by (cases reply) (simp_all add: chat_with_csv_def conversion_message_def)

theorem conversion_failure_logs_and_returns_reply_witness:
  "pd_DataFrame scalar_pair = Inl ValueError
   \<and> chat_with_csv pd_DataFrame (\<lambda>k t q. Inr scalar_pair) ''sk-1'' sample_table ''totals''
       = (Inr scalar_pair, [''Could Not Convert Result To DataFrame''])"
proof -
  have refused: "pd_DataFrame scalar_pair = Inl ValueError"
    by (simp add: scalar_pair_def from_dict_def List.map_filter_simps)
  have shape: "isinstance_list scalar_pair \<or> isinstance_dict scalar_pair"
    by (simp add: scalar_pair_def)
  from conversion_failure_logs_and_returns_reply
         [of "\<lambda>k t q. Inr scalar_pair" "''sk-1''" sample_table "''totals''"
             scalar_pair pd_DataFrame ValueError,
          OF refl shape refused]
       refused
  show ?thesis by simp
qed

text \<open>
  Claim C3. When the reply of the engine is already a table, \<^verbatim>\<open>chat_with_csv\<close> returns
  that table itself, unchanged; the constructor is not called and nothing is printed.
\<close>

theorem table_reply_returned_unchanged:
  assumes "chat key df prompt = Inr (PyDataFrame t)"
  shows "chat_with_csv DataFrame chat key df prompt = (Inr (PyDataFrame t), [])"
  using assms by (simp add: chat_with_csv_def)

theorem table_reply_returned_unchanged_witness:
  "chat_with_csv pd_DataFrame (\<lambda>k t q. Inr (PyDataFrame t)) ''sk-1'' sample_table ''show all''
     = (Inr (PyDataFrame sample_table), [])"
  using table_reply_returned_unchanged
          [of "\<lambda>k t q. Inr (PyDataFrame t)" "''sk-1''" sample_table "''show all''"
              sample_table pd_DataFrame]
  by simp

text \<open>
  Claim C4. When the reply is a row-oriented sequence of uniform records (every record
  has the keys of the first), \<^verbatim>\<open>chat_with_csv\<close> returns the table built from it: its
  columns are the shared keys, in the order of the first record, and it has one row per
  record, in the order of the reply, holding for each column the value the record gives
  that key. For \<^verbatim>\<open>[{"a":1,"b":2},{"a":3,"b":4}]\<close> these are the columns \<^verbatim>\<open>a, b\<close> and the
  rows \<^verbatim>\<open>[1,2]\<close>, \<^verbatim>\<open>[3,4]\<close>.
\<close>

theorem uniform_records_become_table:
  assumes "chat key df prompt = Inr (PyList (map PyDict (r # rs)))"
    and "list_all (\<lambda>r'. set (map fst r') = set (map fst r)) (r # rs)"
  shows "chat_with_csv pd_DataFrame chat key df prompt
           = (Inr (PyDataFrame
                     (Frame (map fst r)
                        (map (\<lambda>r'. map (\<lambda>k. the (map_of r' k)) (map fst r)) (r # rs)))),
              [])"
proof -
  have "pd_DataFrame (PyList (map PyDict (r # rs))) = from_records (r # rs)"
    using those_dest_record [of "r # rs"] by (simp del: those.simps list.map)
  also have "\<dots> = Inr (Frame (map fst r)
                        (map (\<lambda>r'. map (\<lambda>k. the (map_of r' k)) (map fst r)) (r # rs)))"
    using assms(2) by (rule from_records_uniform)
  finally show ?thesis
    using assms(1) by (simp add: chat_with_csv_def del: pd_DataFrame.simps)
qed

theorem uniform_records_become_table_witness:
  "chat_with_csv pd_DataFrame (\<lambda>k t q. Inr uniform_records) ''sk-1'' sample_table ''pairs''
     = (Inr (PyDataFrame (Frame [''a'', ''b''] [[PyInt 1, PyInt 2], [PyInt 3, PyInt 4]])), [])"
  using uniform_records_become_table
          [of "\<lambda>k t q. Inr uniform_records" "''sk-1''" sample_table "''pairs''"
              "[(''a'', PyInt 1), (''b'', PyInt 2)]" "[[(''a'', PyInt 3), (''b'', PyInt 4)]]"]
  by (simp add: uniform_records_def)

text \<open>
  Claim C5. When the reply is neither a table nor a list nor a dict (a scalar or a text,
  such as \<^verbatim>\<open>"42"\<close>), \<^verbatim>\<open>chat_with_csv\<close> returns it unchanged.
\<close>

theorem scalar_reply_returned_unchanged:
  assumes "chat key df prompt = Inr reply"
    and "\<not> isinstance_DataFrame reply"
    and "\<not> isinstance_list reply"
    and "\<not> isinstance_dict reply"
  shows "chat_with_csv DataFrame chat key df prompt = (Inr reply, [])"
  using assms by (simp add: chat_with_csv_def)

theorem scalar_reply_returned_unchanged_witness:
  "chat_with_csv pd_DataFrame (\<lambda>k t q. Inr (PyStr ''42'')) ''sk-1'' sample_table ''how many''
     = (Inr (PyStr ''42''), [])"
  using scalar_reply_returned_unchanged
          [of "\<lambda>k t q. Inr (PyStr ''42'')" "''sk-1''" sample_table "''how many''"
              "PyStr ''42''" pd_DataFrame]
  by simp

text \<open>
  Claim C6. The call of the engine is not guarded: an exception leaves \<^verbatim>\<open>chat_with_csv\<close>
  exactly when the engine raised it. So every exception of the engine propagates, and no
  exception of the conversion does, the conversion being the only guarded step.
\<close>

theorem engine_exception_propagates:
  "(fst (chat_with_csv DataFrame chat key df prompt) = Inl e) = (chat key df prompt = Inl e)"
  by (cases "chat key df prompt") (auto simp: chat_with_csv_def split: sum.splits)

theorem engine_exception_propagates_witness:
  "fst (chat_with_csv pd_DataFrame (\<lambda>k t q. Inl (OtherError ''rate limit''))
          ''sk-1'' sample_table ''totals'')
     = Inl (OtherError ''rate limit'')
   \<and> fst (chat_with_csv pd_DataFrame (\<lambda>k t q. Inr mismatched_records)
          ''sk-1'' sample_table ''totals'')
     \<noteq> Inl ValueError"
  using engine_exception_propagates
          [of pd_DataFrame "\<lambda>k t q. Inl (OtherError ''rate limit'')" "''sk-1''" sample_table
              "''totals''" "OtherError ''rate limit''"]
        engine_exception_propagates
          [of pd_DataFrame "\<lambda>k t q. Inr mismatched_records" "''sk-1''" sample_table
              "''totals''" ValueError]
  by simp

text \<open>
  Claim C10, as stated, fails. It speaks of every record that maps each of its column
  names to a scalar; the empty record \<^verbatim>\<open>{}\<close> is one, having no column at all, and the
  constructor does not raise on it: it makes the empty table, which \<^verbatim>\<open>chat_with_csv\<close>
  returns in place of the dict.
\<close>

theorem empty_record_becomes_empty_table:
  "list_all (\<lambda>(k, v). is_scalar v) []
   \<and> pd_DataFrame (PyDict []) = Inr (Frame [] [])
   \<and> chat_with_csv pd_DataFrame (\<lambda>k t q. Inr (PyDict [])) ''sk-1'' sample_table ''first''
       = (Inr (PyDataFrame (Frame [] [])), [])
   \<and> PyDataFrame (Frame [] []) \<noteq> PyDict []"
  by (simp add: from_dict_def chat_with_csv_def)

text \<open>
  Claim C10, amended. When the reply is a single record with at least one column that
  maps every column name to a scalar (such as \<^verbatim>\<open>{"a": 1}\<close>), the table constructor raises,
  the exception is caught, and \<^verbatim>\<open>chat_with_csv\<close> returns the record itself through its
  last \<^verbatim>\<open>return\<close>: the path of a failed conversion has a defined value, the reply as it
  came.
\<close>

theorem scalar_record_returned_unconverted:
  assumes "chat key df prompt = Inr (PyDict kvs)"
    and "kvs \<noteq> []"
    and "list_all (\<lambda>(k, v). is_scalar v) kvs"
  shows "pd_DataFrame (PyDict kvs) = Inl ValueError
         \<and> chat_with_csv pd_DataFrame chat key df prompt
             = (Inr (PyDict kvs), [''Could Not Convert Result To DataFrame''])"
proof -
  have "pd_DataFrame (PyDict kvs) = Inl ValueError"
    using assms(2,3) by (simp add: from_dict_all_scalar)
  then show ?thesis
    using assms(1) by (simp add: chat_with_csv_def conversion_message_def del: pd_DataFrame.simps)
qed

theorem scalar_record_returned_unconverted_witness:
  "pd_DataFrame scalar_record = Inl ValueError
   \<and> chat_with_csv pd_DataFrame (\<lambda>k t q. Inr scalar_record) ''sk-1'' sample_table ''first''
       = (Inr scalar_record, [''Could Not Convert Result To DataFrame''])"
  using scalar_record_returned_unconverted
          [of "\<lambda>k t q. Inr scalar_record" "''sk-1''" sample_table "''first''" "[(''a'', PyInt 1)]"]
  by (simp add: scalar_record_def)

section \<open>The script: startup and display\<close>

text \<open>
  With the imports found, a credential, an upload that parses and the button pressed, a
  run does reach the upload and query widgets, parses a table and calls the dispatcher:
  the three tests of the startup claims are met by some run.
\<close>

lemma present_key_reaches_ui:
  assumes "environ ''OPENAI_API_KEY'' = Some k" and "k \<noteq> []" and "read_csv file = Inr data"
  shows "list_ex is_upload_or_query_ui
           (fst (app None DataFrame chat read_csv environ (Some file) input_text True))
         \<and> list_ex constructs_table
           (fst (app None DataFrame chat read_csv environ (Some file) input_text True))
         \<and> list_ex invokes_dispatcher
           (fst (app None DataFrame chat read_csv environ (Some file) input_text True))"
  using assms
  by (simp add: app_def main_script_def col2_block_def Let_def split: prod.splits sum.splits)

lemma present_key_runs_col2_block:
  assumes "environ ''OPENAI_API_KEY'' = Some k" and "k \<noteq> []" and "read_csv file = Inr data"
  shows "\<exists>before. app None DataFrame chat read_csv environ (Some file) input_text button
           = (before @ fst (col2_block DataFrame chat k data input_text button),
              snd (col2_block DataFrame chat k data input_text button))"
  using assms by (simp add: app_def main_script_def Let_def split: prod.splits)

lemma failed_import_ends_run:
  "app (Some e) DataFrame chat read_csv environ input_csv input_text button = ([], Uncaught e)"
  by (simp add: app_def)

text \<open>
  Claim C7. When the credential is absent from the environment at startup, the check of
  lines 11 to 15 shows the error message and stops the run there: whatever was uploaded,
  typed or pressed, the script from the check on renders that one message, and so does
  the whole run once its imports are found. Whatever the imports do (a run whose import
  raises ends earlier still, with that exception), the run does not reach its end: no
  upload or query widget is reached, no table is constructed and the dispatcher is never
  called.
\<close>

theorem missing_key_halts_startup:
  assumes "environ ''OPENAI_API_KEY'' = None"
  shows "main_script DataFrame chat read_csv environ input_csv input_text button
           = ([Render Page (St_error missing_key_message)], Stopped)
         \<and> app None DataFrame chat read_csv environ input_csv input_text button
           = ([Render Page (St_error missing_key_message)], Stopped)
         \<and> snd (app imported DataFrame chat read_csv environ input_csv input_text button)
           \<noteq> Finished
         \<and> \<not> list_ex is_upload_or_query_ui
               (fst (app imported DataFrame chat read_csv environ input_csv input_text button))
         \<and> \<not> list_ex constructs_table
               (fst (app imported DataFrame chat read_csv environ input_csv input_text button))
         \<and> \<not> list_ex invokes_dispatcher
               (fst (app imported DataFrame chat read_csv environ input_csv input_text button))"
  using assms by (cases imported) (simp_all add: app_def main_script_def)

theorem missing_key_halts_startup_witness:
  "main_script pd_DataFrame (\<lambda>k t q. Inr uniform_records) (\<lambda>f. Inr sample_table) (\<lambda>name. None)
       (Some ''city,sales'') ''totals'' True
     = ([Render Page (St_error missing_key_message)], Stopped)
   \<and> app None pd_DataFrame (\<lambda>k t q. Inr uniform_records) (\<lambda>f. Inr sample_table) (\<lambda>name. None)
       (Some ''city,sales'') ''totals'' True
     = ([Render Page (St_error missing_key_message)], Stopped)
   \<and> \<not> list_ex invokes_dispatcher
         (fst (app (Some ImportError) pd_DataFrame (\<lambda>k t q. Inr uniform_records)
                 (\<lambda>f. Inr sample_table) (\<lambda>name. None) (Some ''city,sales'') ''totals'' True))"
  using missing_key_halts_startup
          [where environ = "\<lambda>name. None" and DataFrame = pd_DataFrame
             and chat = "\<lambda>k t q. Inr uniform_records" and read_csv = "\<lambda>f. Inr sample_table"
             and input_csv = "Some ''city,sales''" and input_text = "''totals''"
             and button = True and imported = "Some ImportError"]
  by simp

text \<open>
  Claim C9. The startup check tests whether the credential is falsy, not whether it is
  set. With the variable set to the empty text the check of lines 11 to 15 does what it
  does with the variable absent: it shows the error message and stops the run before any
  widget of the page. The whole run is then the run with the variable absent, whatever
  its imports do.
\<close>

theorem empty_key_treated_as_missing:
  assumes "environ ''OPENAI_API_KEY'' = Some []"
  shows "main_script DataFrame chat read_csv environ input_csv input_text button
           = ([Render Page (St_error missing_key_message)], Stopped)
         \<and> main_script DataFrame chat read_csv environ input_csv input_text button
           = main_script DataFrame chat read_csv (environ(''OPENAI_API_KEY'' := None))
               input_csv input_text button
         \<and> app imported DataFrame chat read_csv environ input_csv input_text button
           = app imported DataFrame chat read_csv (environ(''OPENAI_API_KEY'' := None))
               input_csv input_text button"
  using assms by (cases imported) (simp_all add: app_def main_script_def)

theorem empty_key_treated_as_missing_witness:
  "main_script pd_DataFrame (\<lambda>k t q. Inr (PyStr ''42'')) (\<lambda>f. Inr sample_table)
       ((\<lambda>name. None)(''OPENAI_API_KEY'' := Some []))
       (Some ''city,sales'') ''how many'' True
     = ([Render Page (St_error missing_key_message)], Stopped)
   \<and> app None pd_DataFrame (\<lambda>k t q. Inr (PyStr ''42'')) (\<lambda>f. Inr sample_table)
       ((\<lambda>name. None)(''OPENAI_API_KEY'' := Some []))
       (Some ''city,sales'') ''how many'' True
     = app None pd_DataFrame (\<lambda>k t q. Inr (PyStr ''42'')) (\<lambda>f. Inr sample_table)
       (\<lambda>name. None)
       (Some ''city,sales'') ''how many'' True"
  using empty_key_treated_as_missing
          [where environ = "(\<lambda>name. None)(''OPENAI_API_KEY'' := Some [])"
             and DataFrame = pd_DataFrame and chat = "\<lambda>k t q. Inr (PyStr ''42'')"
             and read_csv = "\<lambda>f. Inr sample_table" and input_csv = "Some ''city,sales''"
             and input_text = "''how many''" and button = True and imported = None]
  by simp

text \<open>
  Claim C8. After the dispatcher has returned, the right column always passes the result
  to the generic success widget, whatever its type. A table is therefore rendered twice,
  by the grid widget and then by the success widget; any other result is rendered by
  the success widget alone.
\<close>

theorem result_always_shown_by_success_widget:
  assumes "chat_with_csv DataFrame chat key data input_text = (Inr result, out)"
  shows "col2_block DataFrame chat key data input_text True =
           ([Render Col2 (St_info ''Chat Below With Your Dataset''),
             Render Col2 (St_text_area ''Enter Your Query...''),
             Render Col2 (St_button ''Chat With CSV''),
             Render Col2 (St_info (magnifier @ '' Your Query: '' @ input_text)),
             Dispatch data input_text]
            @ map Stdout out
            @ (case result of
                 PyDataFrame t \<Rightarrow> [Render Col2 (St_dataframe t), Render Col2 (St_success result)]
               | _ \<Rightarrow> [Render Col2 (St_success result)]),
            Finished)"
  using assms by (simp add: col2_block_def show_result_def split: py_value.splits)

theorem result_always_shown_by_success_widget_witness:
  "col2_block pd_DataFrame (\<lambda>k t q. Inr (PyDataFrame t)) ''sk-1'' sample_table ''show all'' True =
     ([Render Col2 (St_info ''Chat Below With Your Dataset''),
       Render Col2 (St_text_area ''Enter Your Query...''),
       Render Col2 (St_button ''Chat With CSV''),
       Render Col2 (St_info (magnifier @ '' Your Query: show all'')),
       Dispatch sample_table ''show all'',
       Render Col2 (St_dataframe sample_table),
       Render Col2 (St_success (PyDataFrame sample_table))],
      Finished)
   \<and> col2_block pd_DataFrame (\<lambda>k t q. Inr (PyStr ''42'')) ''sk-1'' sample_table ''how many'' True =
     ([Render Col2 (St_info ''Chat Below With Your Dataset''),
       Render Col2 (St_text_area ''Enter Your Query...''),
       Render Col2 (St_button ''Chat With CSV''),
       Render Col2 (St_info (magnifier @ '' Your Query: how many'')),
       Dispatch sample_table ''how many'',
       Render Col2 (St_success (PyStr ''42''))],
      Finished)"
proof -
  have table: "chat_with_csv pd_DataFrame (\<lambda>k t q. Inr (PyDataFrame t)) ''sk-1'' sample_table ''show all''
                 = (Inr (PyDataFrame sample_table), [])"
    by (simp add: chat_with_csv_def)
  have scalar: "chat_with_csv pd_DataFrame (\<lambda>k t q. Inr (PyStr ''42'')) ''sk-1'' sample_table ''how many''
                  = (Inr (PyStr ''42''), [])"
    by (simp add: chat_with_csv_def)
  from result_always_shown_by_success_widget [OF table]
       result_always_shown_by_success_widget [OF scalar]
  show ?thesis by simp
qed

end
